theory Spec2Isabelle
  imports Main
begin

section \<open>The Output component of client/src/components/Output.tsx\<close>

text \<open>
  The component keeps eight \<open>useState\<close> cells, issues network calls through
  \<open>fetch\<close> and \<open>executeCode\<close>, and reports through \<open>toast\<close>. Each asynchronous
  handler is embedded in two parts, cut at its \<open>await\<close>: a \<open>_start\<close> function for
  the code that runs before the call is awaited, and a \<open>_resume\<close> function that
  takes what the awaited call produced. A handler named without a suffix is the two
  run back to back, with nothing else in between. Calls to \<open>console.log\<close> and
  \<open>console.error\<close> only write diagnostics and are left out.

  Strings are lists of characters. A character stands for one UTF-16 code unit below
  256, written by its code where it is not printable: \<open>CHR 0x0A\<close> is the line feed,
  \<open>CHR 0xA0\<close> the no-break space U+00A0. Text with code units from 256 on is outside
  the model; the handlers never look inside a character except to compare it.
\<close>

subsection \<open>State\<close>

record ui_state =
  "output" :: "string list option"
  isLoading :: bool
  isError :: bool
  emails :: "string list"
  isModalOpen :: bool
  newEmail :: string
  isRemoving :: bool
  isDropdownOpen :: bool

text \<open>The initial values given to \<open>useState\<close>; \<open>output\<close> starts as \<open>null\<close>.\<close>

definition initial_ui :: ui_state where
  "initial_ui =
     \<lparr>output = None, isLoading = False, isError = False, emails = [],
      isModalOpen = False, newEmail = [], isRemoving = False, isDropdownOpen = False\<rparr>"

text \<open>
  The props. \<open>editorRef\<close> stands for the value of \<open>editorRef.current?.getValue()\<close>:
  \<open>None\<close> when \<open>editorRef.current\<close> is null or undefined, the editor's text otherwise.
\<close>

record props =
  editorRef :: "string option"
  language :: string
  id_prop :: string

datatype toast_status = Success | Error

record toast_options =
  title :: string
  description :: string
  status :: toast_status
  duration :: nat

datatype request =
    GET_codes string
  | PUT_codes_save string string
  | PUT_codes_give string string
  | PUT_codes_take string string
  | ExecuteCode string string

text \<open>
  The world a handler acts on: the component's state, the network calls issued so far
  and the notifications raised so far, both oldest first.
\<close>

record world =
  ui :: ui_state
  requests :: "request list"
  toasts :: "toast_options list"

definition initial_world :: world where
  "initial_world = \<lparr>ui = initial_ui, requests = [], toasts = []\<rparr>"

definition setOutput :: "string list \<Rightarrow> world \<Rightarrow> world" where
  "setOutput v w = w\<lparr>ui := (ui w)\<lparr>output := Some v\<rparr>\<rparr>"

definition setIsLoading :: "bool \<Rightarrow> world \<Rightarrow> world" where
  "setIsLoading v w = w\<lparr>ui := (ui w)\<lparr>isLoading := v\<rparr>\<rparr>"

definition setIsError :: "bool \<Rightarrow> world \<Rightarrow> world" where
  "setIsError v w = w\<lparr>ui := (ui w)\<lparr>isError := v\<rparr>\<rparr>"

definition setEmails :: "string list \<Rightarrow> world \<Rightarrow> world" where
  "setEmails v w = w\<lparr>ui := (ui w)\<lparr>emails := v\<rparr>\<rparr>"

definition setIsModalOpen :: "bool \<Rightarrow> world \<Rightarrow> world" where
  "setIsModalOpen v w = w\<lparr>ui := (ui w)\<lparr>isModalOpen := v\<rparr>\<rparr>"

definition setNewEmail :: "string \<Rightarrow> world \<Rightarrow> world" where
  "setNewEmail v w = w\<lparr>ui := (ui w)\<lparr>newEmail := v\<rparr>\<rparr>"

definition toast :: "toast_options \<Rightarrow> world \<Rightarrow> world" where
  "toast t w = w\<lparr>toasts := toasts w @ [t]\<rparr>"

definition send :: "request \<Rightarrow> world \<Rightarrow> world" where
  "send r w = w\<lparr>requests := requests w @ [r]\<rparr>"

subsection \<open>What the awaited calls produce\<close>

text \<open>
  \<open>response.json()\<close> rejects, or resolves to \<open>null\<close> (reading a property of it
  throws), or resolves to an object.
\<close>

datatype 'b body = JsonRejects | JsonNull | JsonData 'b

record 'b response =
  ok :: bool
  json :: "'b body"

datatype 'b fetched = FetchRejects | FetchResolves "'b response"

text \<open>
  Modelled from the spec: the shapes of the server's answers, which the source reads
  as untyped JSON. \<open>GET /api/codes/{id}\<close> answers \<open>{ Access: sequence of string }\<close>, the
  field possibly absent; a failed \<open>PUT\<close> answers with an optional \<open>{ message: string }\<close>.
\<close>

record code_data =
  Access :: "string list option"

record error_data =
  message :: "string option"

text \<open>
  Modelled from the spec: \<open>executeCode\<close> lives in \<open>../api\<close>, outside the sources at hand.
  It takes \<open>(language, sourceText)\<close>, resolves to
  \<open>{ run: { output: string, stderr: string|empty } }\<close>, and may raise an error with a
  \<open>message\<close> field.
\<close>

record run_result =
  run_output :: string
  run_stderr :: "string option"

datatype executed = Throws "string option" | Returns run_result

subsection \<open>JavaScript helpers\<close>

text \<open>Truthiness of a possibly undefined string: defined and not empty.\<close>

definition truthy :: "string option \<Rightarrow> bool" where
  "truthy v = (case v of None \<Rightarrow> False | Some s \<Rightarrow> s \<noteq> [])"

text \<open>\<open>v || d\<close> for a possibly undefined string \<open>v\<close>.\<close>

definition or_default :: "string option \<Rightarrow> string \<Rightarrow> string" where
  "or_default v d = (case v of None \<Rightarrow> d | Some s \<Rightarrow> if s = [] then d else s)"

definition newline :: char where
  "newline = CHR 0x0A"

text \<open>\<open>s.split(sep)\<close> for a separator of one character.\<close>

fun split :: "char \<Rightarrow> string \<Rightarrow> string list" where
  "split sep [] = [[]]"
| "split sep (c # cs) =
     (if c = sep then [] # split sep cs
      else (case split sep cs of
              [] \<Rightarrow> [[c]]
            | l # ls \<Rightarrow> (c # l) # ls))"

text \<open>\<open>lines.join(sep)\<close>, used to say what splitting means.\<close>

fun join :: "char \<Rightarrow> string list \<Rightarrow> string" where
  "join sep [] = []"
| "join sep [l] = l"
| "join sep (l # ls) = l @ sep # join sep ls"

text \<open>
  A \<open>try\<close> block either runs to its end or throws; mutations made before the throw
  stay, so a throw carries the world it happened in, next to the thrown value.
\<close>

type_synonym 'e attempt = "'e \<times> world + world"

definition try_catch :: "'e attempt \<Rightarrow> ('e \<Rightarrow> world \<Rightarrow> world) \<Rightarrow> world" where
  "try_catch a handler = (case a of Inl (e, w) \<Rightarrow> handler e w | Inr w \<Rightarrow> w)"

subsection \<open>fetchEmails\<close>

definition fetchEmails_start :: "props \<Rightarrow> world \<Rightarrow> world" where
  "fetchEmails_start p w = send (GET_codes (id_prop p)) w"

definition fetchEmails_try :: "code_data fetched \<Rightarrow> world \<Rightarrow> unit attempt" where
  "fetchEmails_try r w =
     (case r of
        FetchRejects \<Rightarrow> Inl ((), w)
      | FetchResolves response \<Rightarrow>
          if ok response then
            (case json response of
               JsonRejects \<Rightarrow> Inl ((), w)
             | JsonNull \<Rightarrow> Inl ((), w)
             | JsonData data \<Rightarrow>
                 Inr (setEmails (case Access data of None \<Rightarrow> [] | Some a \<Rightarrow> a) w))
          else Inl ((), w))"

definition fetchEmails_resume :: "code_data fetched \<Rightarrow> world \<Rightarrow> world" where
  "fetchEmails_resume r w =
     try_catch (fetchEmails_try r w)
       (\<lambda>error. toast \<lparr>title = ''Error'', description = ''Unable to fetch email list.'',
                        status = Error, duration = 6000\<rparr>)"

definition fetchEmails :: "props \<Rightarrow> code_data fetched \<Rightarrow> world \<Rightarrow> world" where
  "fetchEmails p r w = fetchEmails_resume r (fetchEmails_start p w)"

subsection \<open>runCode\<close>

text \<open>
  \<open>None\<close> from a \<open>_start\<close> function: the guard returned early, nothing is awaited.
  \<open>!sourceCode\<close> holds when the editor gave nothing or the empty string.
\<close>

definition runCode_start :: "props \<Rightarrow> world \<Rightarrow> world option" where
  "runCode_start p w =
     (case editorRef p of
        None \<Rightarrow> None
      | Some sourceCode \<Rightarrow>
          if sourceCode = [] then None
          else Some (send (ExecuteCode (language p) sourceCode) (setIsLoading True w)))"

definition runCode_try :: "executed \<Rightarrow> world \<Rightarrow> (string option) attempt" where
  "runCode_try r w =
     (case r of
        Throws msg \<Rightarrow> Inl (msg, w)
      | Returns result \<Rightarrow>
          (let w1 = setOutput (split newline (run_output result)) w
           in Inr (if truthy (run_stderr result) then setIsError True w1
                   else setIsError False w1)))"

definition runCode_resume :: "executed \<Rightarrow> world \<Rightarrow> world" where
  "runCode_resume r w =
     setIsLoading False
       (try_catch (runCode_try r w)
          (\<lambda>error_message.
             toast \<lparr>title = ''An error occurred.'',
                    description = or_default error_message ''Unable to run code'',
                    status = Error, duration = 6000\<rparr>))"

definition runCode :: "props \<Rightarrow> executed \<Rightarrow> world \<Rightarrow> world" where
  "runCode p r w =
     (case runCode_start p w of None \<Rightarrow> w | Some w1 \<Rightarrow> runCode_resume r w1)"

subsection \<open>saveCode\<close>

definition saveCode_start :: "props \<Rightarrow> world \<Rightarrow> world option" where
  "saveCode_start p w =
     (case editorRef p of
        None \<Rightarrow> None
      | Some content \<Rightarrow>
          if content = [] then None
          else Some (send (PUT_codes_save (id_prop p) content) (setIsLoading True w)))"

definition saveCode_try :: "error_data fetched \<Rightarrow> world \<Rightarrow> unit attempt" where
  "saveCode_try r w =
     (case r of
        FetchRejects \<Rightarrow> Inl ((), w)
      | FetchResolves response \<Rightarrow>
          if ok response then
            Inr (toast \<lparr>title = ''Success'', description = ''Content saved successfully!'',
                        status = Success, duration = 6000\<rparr> w)
          else
            (case json response of
               JsonRejects \<Rightarrow> Inl ((), w)
             | JsonNull \<Rightarrow> Inl ((), w)
             | JsonData errorData \<Rightarrow>
                 Inr (toast \<lparr>title = ''Error'',
                             description =
                               or_default (message errorData) ''Failed to save content.'',
                             status = Error, duration = 6000\<rparr> w)))"

definition saveCode_resume :: "error_data fetched \<Rightarrow> world \<Rightarrow> world" where
  "saveCode_resume r w =
     setIsLoading False
       (try_catch (saveCode_try r w)
          (\<lambda>error. toast \<lparr>title = ''Error'', description = ''An unexpected error occurred.'',
                           status = Error, duration = 6000\<rparr>))"

definition saveCode :: "props \<Rightarrow> error_data fetched \<Rightarrow> world \<Rightarrow> world" where
  "saveCode p r w =
     (case saveCode_start p w of None \<Rightarrow> w | Some w1 \<Rightarrow> saveCode_resume r w1)"

subsection \<open>handleEmailSubmit\<close>

text \<open>
  The handler is a closure over the render it was created in: inside it \<open>emails\<close> and
  \<open>newEmail\<close> are the values of that render, also after the \<open>await\<close>. The \<open>_resume\<close>
  function therefore takes that render's state as \<open>snap\<close>, beside the world it resumes
  in.
\<close>

definition handleEmailSubmit_start :: "props \<Rightarrow> world \<Rightarrow> world option" where
  "handleEmailSubmit_start p w =
     (if newEmail (ui w) \<noteq> [] then
        Some (send (PUT_codes_give (id_prop p) (newEmail (ui w))) w)
      else None)"

definition handleEmailSubmit_try ::
  "ui_state \<Rightarrow> error_data fetched \<Rightarrow> world \<Rightarrow> unit attempt" where
  "handleEmailSubmit_try snap r w =
     (case r of
        FetchRejects \<Rightarrow> Inl ((), w)
      | FetchResolves response \<Rightarrow>
          if ok response then
            (let w1 = setEmails (emails snap @ [newEmail snap]) w;
                 w2 = setNewEmail [] w1;
                 w3 = setIsModalOpen False w2
             in Inr (toast \<lparr>title = ''Access Granted'',
                             description = ''Access granted to '' @ newEmail snap,
                             status = Success, duration = 6000\<rparr> w3))
          else
            (case json response of
               JsonRejects \<Rightarrow> Inl ((), w)
             | JsonNull \<Rightarrow> Inl ((), w)
             | JsonData errorData \<Rightarrow>
                 Inr (toast \<lparr>title = ''Error'',
                             description =
                               or_default (message errorData) ''Failed to add email.'',
                             status = Error, duration = 6000\<rparr> w)))"

definition handleEmailSubmit_resume ::
  "ui_state \<Rightarrow> error_data fetched \<Rightarrow> world \<Rightarrow> world" where
  "handleEmailSubmit_resume snap r w =
     try_catch (handleEmailSubmit_try snap r w)
       (\<lambda>error. toast \<lparr>title = ''Error'', description = ''An unexpected error occurred.'',
                        status = Error, duration = 6000\<rparr>)"

definition handleEmailSubmit :: "props \<Rightarrow> error_data fetched \<Rightarrow> world \<Rightarrow> world" where
  "handleEmailSubmit p r w =
     (case handleEmailSubmit_start p w of
        None \<Rightarrow> w
      | Some w1 \<Rightarrow> handleEmailSubmit_resume (ui w) r w1)"

subsection \<open>toggleRemoveMode and removeEmail\<close>

definition toggleRemoveMode :: "world \<Rightarrow> world" where
  "toggleRemoveMode w = w\<lparr>ui := (ui w)\<lparr>isRemoving := \<not> isRemoving (ui w)\<rparr>\<rparr>"

definition removeEmail_start :: "props \<Rightarrow> string \<Rightarrow> world \<Rightarrow> world" where
  "removeEmail_start p emailToRemove w = send (PUT_codes_take (id_prop p) emailToRemove) w"

definition removeEmail_try ::
  "ui_state \<Rightarrow> string \<Rightarrow> error_data fetched \<Rightarrow> world \<Rightarrow> unit attempt" where
  "removeEmail_try snap emailToRemove r w =
     (case r of
        FetchRejects \<Rightarrow> Inl ((), w)
      | FetchResolves response \<Rightarrow>
          if ok response then
            (let w1 = setEmails (filter (\<lambda>email. email \<noteq> emailToRemove) (emails snap)) w
             in Inr (toast \<lparr>title = ''Access Revoked'',
                             description = ''Access revoked for '' @ emailToRemove,
                             status = Success, duration = 6000\<rparr> w1))
          else
            (case json response of
               JsonRejects \<Rightarrow> Inl ((), w)
             | JsonNull \<Rightarrow> Inl ((), w)
             | JsonData errorData \<Rightarrow>
                 Inr (toast \<lparr>title = ''Error'',
                             description =
                               or_default (message errorData) ''Failed to remove email.'',
                             status = Error, duration = 6000\<rparr> w)))"

definition removeEmail_resume ::
  "ui_state \<Rightarrow> string \<Rightarrow> error_data fetched \<Rightarrow> world \<Rightarrow> world" where
  "removeEmail_resume snap emailToRemove r w =
     try_catch (removeEmail_try snap emailToRemove r w)
       (\<lambda>error. toast \<lparr>title = ''Error'', description = ''An unexpected error occurred.'',
                        status = Error, duration = 6000\<rparr>)"

definition removeEmail :: "props \<Rightarrow> string \<Rightarrow> error_data fetched \<Rightarrow> world \<Rightarrow> world" where
  "removeEmail p emailToRemove r w =
     removeEmail_resume (ui w) emailToRemove r (removeEmail_start p emailToRemove w)"

subsection \<open>The e-mail field and the menu entry that opens it\<close>

text \<open>
  The pending e-mail is written from one place besides the success branch above: the
  \<open>onChange\<close> of the \<open><Input type="email">\<close> in the modal, which calls
  \<open>setNewEmail(e.target.value)\<close>. The value of an input of type \<open>email\<close> is the text in
  the field after the browser's value sanitization for that type: line feeds and
  carriage returns are removed, then ASCII white space (tab, line feed, form feed,
  carriage return, space) is stripped from both ends.
\<close>

definition ascii_whitespace :: "char \<Rightarrow> bool" where
  "ascii_whitespace c =
     (c = CHR 0x09 \<or> c = CHR 0x0A \<or> c = CHR 0x0C \<or> c = CHR 0x0D \<or> c = CHR 0x20)"

definition strip_newlines :: "string \<Rightarrow> string" where
  "strip_newlines s = filter (\<lambda>c. c \<noteq> CHR 0x0A \<and> c \<noteq> CHR 0x0D) s"

definition strip_ascii_whitespace :: "string \<Rightarrow> string" where
  "strip_ascii_whitespace s =
     rev (dropWhile ascii_whitespace (rev (dropWhile ascii_whitespace s)))"

definition email_input_value :: "string \<Rightarrow> string" where
  "email_input_value field_text = strip_ascii_whitespace (strip_newlines field_text)"

definition newEmail_onChange :: "string \<Rightarrow> world \<Rightarrow> world" where
  "newEmail_onChange field_text w = setNewEmail (email_input_value field_text) w"

text \<open>The menu entry Enter New Email: \<open>onClick={() => setIsModalOpen(true)}\<close>.\<close>

definition enterNewEmail_onClick :: "world \<Rightarrow> world" where
  "enterNewEmail_onClick w = setIsModalOpen True w"

subsection \<open>What the two buttons show\<close>

text \<open>
  The \<open>isLoading\<close> prop of the Run Code button and of the Save Code button, as the
  component renders them.
\<close>

definition run_button_isLoading :: "ui_state \<Rightarrow> bool" where
  "run_button_isLoading s = isLoading s"

definition save_button_isLoading :: "ui_state \<Rightarrow> bool" where
  "save_button_isLoading s = isLoading s"

subsection \<open>Outcomes and observations\<close>

text \<open>
  A \<open>fetch\<close> failed: the call rejected, or the response carries a non-success status.
\<close>

definition fetch_failed :: "'b fetched \<Rightarrow> bool" where
  "fetch_failed r = (case r of FetchRejects \<Rightarrow> True | FetchResolves response \<Rightarrow> \<not> ok response)"

text \<open>
  What a successful load delivers: the parsed object of a response with a success status.
  Everything else (a rejected call, another status, a body that does not parse or is
  \<open>null\<close>) is \<open>None\<close>.
\<close>

definition loaded :: "code_data fetched \<Rightarrow> code_data option" where
  "loaded r =
     (case r of
        FetchRejects \<Rightarrow> None
      | FetchResolves response \<Rightarrow>
          if ok response then
            (case json response of JsonData data \<Rightarrow> Some data | _ \<Rightarrow> None)
          else None)"

definition AccessList :: "world \<Rightarrow> string list" where
  "AccessList w = emails (ui w)"

text \<open>The execution result: the output lines (absent before the first run) and the error mark.\<close>

definition ExecutionResult :: "world \<Rightarrow> string list option \<times> bool" where
  "ExecutionResult w = (output (ui w), isError (ui w))"

text \<open>
  A blank string: white space only. White space is what JavaScript's \<open>trim\<close> removes,
  of which the code units below 256 are tab, line feed, vertical tab, form feed,
  carriage return, space and the no-break space.
\<close>

definition white_space :: "char \<Rightarrow> bool" where
  "white_space c =
     (c = CHR 0x09 \<or> c = CHR 0x0A \<or> c = CHR 0x0B \<or> c = CHR 0x0C \<or> c = CHR 0x0D
      \<or> c = CHR 0x20 \<or> c = CHR 0xA0)"

definition blank :: "string \<Rightarrow> bool" where
  "blank s = list_all white_space s"

text \<open>
  The access list and the execution result are the same in two worlds.
\<close>

definition same_data :: "world \<Rightarrow> world \<Rightarrow> bool" where
  "same_data w w' = (AccessList w' = AccessList w \<and> ExecutionResult w' = ExecutionResult w)"

text \<open>
  For the concrete runs below: props with some text in the editor, and a world in which
  the document is shared with two people, one run has printed a line, the add-email
  modal is open and an address is typed in.
\<close>

definition some_props :: props where
  "some_props = \<lparr>editorRef = Some ''print(1)'', language = ''python'', id_prop = ''42''\<rparr>"

definition some_world :: world where
  "some_world =
     \<lparr>ui = \<lparr>output = Some [''1''], isLoading = False, isError = False,
            emails = [''a@x.com'', ''b@x.com''], isModalOpen = True,
            newEmail = ''c@x.com'', isRemoving = True, isDropdownOpen = True\<rparr>,
      requests = [GET_codes ''42''], toasts = []\<rparr>"

text \<open>The world of a fresh component right after \<open>runCode\<close> has sent its call.\<close>

definition running_world :: world where
  "running_world =
     send (ExecuteCode ''python'' ''print(1)'') (setIsLoading True initial_world)"

text \<open>
  The world a user reaches by opening the page of a document shared with \<open>a@x.com\<close>,
  choosing Enter New Email once the list has loaded, and typing into the e-mail field.
\<close>

definition typing_world :: "string \<Rightarrow> world" where
  "typing_world field_text =
     newEmail_onChange field_text
       (enterNewEmail_onClick
          (fetchEmails some_props
             (FetchResolves \<lparr>ok = True, json = JsonData \<lparr>Access = Some [''a@x.com'']\<rparr>\<rparr>)
             initial_world))"

text \<open>Answers of the server used in the concrete runs.\<close>

definition ok_response :: "'b response" where
  "ok_response = \<lparr>ok = True, json = JsonRejects\<rparr>"

definition rejection :: "error_data response" where
  "rejection = \<lparr>ok = False, json = JsonData \<lparr>message = Some ''Not allowed''\<rparr>\<rparr>"

section \<open>Auxiliary facts\<close>

subsection \<open>Splitting and joining\<close>

lemma split_not_Nil: "split sep s \<noteq> []"
  by (induction s) (auto split: list.splits)

lemma join_Cons: "ls \<noteq> [] \<Longrightarrow> join sep (l # ls) = l @ sep # join sep ls"
  by (cases ls) auto

lemma join_split: "join sep (split sep s) = s"
proof (induction s)
  case Nil
  then show ?case by simp
next
  case (Cons c cs)
  show ?case
  proof (cases "split sep cs")
    case Nil
    then show ?thesis using split_not_Nil [of sep cs] by simp
  next
    case (Cons l ls)
    with Cons.IH show ?thesis
      by (cases ls) (auto simp: join_Cons split_not_Nil)
  qed
qed

lemma split_no_sep: "l \<in> set (split sep s) \<Longrightarrow> sep \<notin> set l"
  by (induction s arbitrary: l) (auto split: if_splits list.splits)

lemma length_split: "length (split sep s) = Suc (count_list s sep)"
  by (induction s) (auto split: list.splits)

subsection \<open>The value of the e-mail field\<close>

lemma email_input_value_ascii_blank:
  assumes "list_all ascii_whitespace field_text"
  shows "email_input_value field_text = []"
proof -
  from assms have "list_all ascii_whitespace (strip_newlines field_text)"
    by (simp add: strip_newlines_def list_all_iff)
  then have "\<forall>c \<in> set (strip_newlines field_text). ascii_whitespace c"
    by (simp add: list_all_iff)
  then have "dropWhile ascii_whitespace (strip_newlines field_text) = []"
    by (rule dropWhile_eq_Nil_conv [THEN iffD2])
  then have "strip_ascii_whitespace (strip_newlines field_text)
      = rev (dropWhile ascii_whitespace (rev []))"
    by (simp only: strip_ascii_whitespace_def)
  then show ?thesis
    by (simp only: email_input_value_def rev.simps dropWhile.simps)
qed

lemma email_input_value_not_ascii_blank:
  assumes "email_input_value field_text \<noteq> []"
  shows "\<not> list_all ascii_whitespace (email_input_value field_text)"
proof -
  define d where
    "d = dropWhile ascii_whitespace
           (rev (dropWhile ascii_whitespace (strip_newlines field_text)))"
  have v: "email_input_value field_text = rev d"
    by (simp add: email_input_value_def strip_ascii_whitespace_def d_def)
  with assms have "d \<noteq> []" by simp
  then have "\<not> ascii_whitespace (hd d)" and "hd d \<in> set d"
    unfolding d_def by (simp_all add: hd_dropWhile)
  then show ?thesis
    by (auto simp: v list_all_iff)
qed

subsection \<open>The setters, field by field\<close>

lemmas setter_defs =
  setOutput_def setIsLoading_def setIsError_def setEmails_def setIsModalOpen_def
  setNewEmail_def toast_def send_def

lemma ui_toast [simp]: "ui (toast t w) = ui w"
  by (simp add: toast_def)

lemma ui_send [simp]: "ui (send q w) = ui w"
  by (simp add: send_def)

lemma requests_toast [simp]: "requests (toast t w) = requests w"
  by (simp add: toast_def)

lemma requests_setters [simp]:
  "requests (setOutput l w) = requests w"
  "requests (setIsLoading b w) = requests w"
  "requests (setIsError b w) = requests w"
  "requests (setEmails l w) = requests w"
  "requests (setIsModalOpen b w) = requests w"
  "requests (setNewEmail e w) = requests w"
  by (simp_all add: setter_defs)

lemma requests_send [simp]: "requests (send q w) = requests w @ [q]"
  by (simp add: send_def)

lemma ui_setters [simp]:
  "ui (setOutput l w) = (ui w)\<lparr>output := Some l\<rparr>"
  "ui (setIsLoading b w) = (ui w)\<lparr>isLoading := b\<rparr>"
  "ui (setIsError b w) = (ui w)\<lparr>isError := b\<rparr>"
  "ui (setEmails l w) = (ui w)\<lparr>emails := l\<rparr>"
  "ui (setIsModalOpen b w) = (ui w)\<lparr>isModalOpen := b\<rparr>"
  "ui (setNewEmail e w) = (ui w)\<lparr>newEmail := e\<rparr>"
  by (simp_all add: setter_defs)

subsection \<open>What each resumed handler does to the state\<close>

lemma ui_try_catch_toast:
  "ui (try_catch a (\<lambda>e. toast (t e))) = (case a of Inl (e, w) \<Rightarrow> ui w | Inr w \<Rightarrow> ui w)"
  by (simp add: try_catch_def split: sum.splits prod.splits)

lemma requests_try_catch_toast:
  "requests (try_catch a (\<lambda>e. toast (t e))) =
     (case a of Inl (e, w) \<Rightarrow> requests w | Inr w \<Rightarrow> requests w)"
  by (simp add: try_catch_def split: sum.splits prod.splits)

lemma ui_fetchEmails_resume:
  "ui (fetchEmails_resume r w) =
     (case loaded r of
        None \<Rightarrow> ui w
      | Some d \<Rightarrow> (ui w)\<lparr>emails := (case Access d of None \<Rightarrow> [] | Some a \<Rightarrow> a)\<rparr>)"
  by (simp add: fetchEmails_resume_def fetchEmails_try_def loaded_def ui_try_catch_toast
      split: fetched.splits body.splits)

lemma ui_runCode_resume_Throws:
  "ui (runCode_resume (Throws m) w) = (ui w)\<lparr>isLoading := False\<rparr>"
  by (simp add: runCode_resume_def runCode_try_def ui_try_catch_toast)

lemma ui_runCode_resume_Returns:
  "ui (runCode_resume (Returns res) w) =
     (ui w)\<lparr>output := Some (split newline (run_output res)),
            isError := truthy (run_stderr res), isLoading := False\<rparr>"
  by (simp add: runCode_resume_def runCode_try_def ui_try_catch_toast Let_def)

lemma ui_saveCode_resume:
  "ui (saveCode_resume r w) = (ui w)\<lparr>isLoading := False\<rparr>"
  by (simp add: saveCode_resume_def saveCode_try_def ui_try_catch_toast
      split: fetched.splits body.splits)

lemma ui_handleEmailSubmit_resume_failed:
  "fetch_failed r \<Longrightarrow> ui (handleEmailSubmit_resume snap r w) = ui w"
  by (simp add: handleEmailSubmit_resume_def handleEmailSubmit_try_def ui_try_catch_toast
      fetch_failed_def split: fetched.splits body.splits)

lemma ui_handleEmailSubmit_resume_ok:
  "ok response \<Longrightarrow>
   ui (handleEmailSubmit_resume snap (FetchResolves response) w) =
     (ui w)\<lparr>emails := emails snap @ [newEmail snap], newEmail := [], isModalOpen := False\<rparr>"
  by (simp add: handleEmailSubmit_resume_def handleEmailSubmit_try_def ui_try_catch_toast
      Let_def)

lemma ui_removeEmail_resume_failed:
  "fetch_failed r \<Longrightarrow> ui (removeEmail_resume snap e r w) = ui w"
  by (simp add: removeEmail_resume_def removeEmail_try_def ui_try_catch_toast
      fetch_failed_def split: fetched.splits body.splits)

lemma ui_removeEmail_resume_ok:
  "ok response \<Longrightarrow>
   ui (removeEmail_resume snap e (FetchResolves response) w) =
     (ui w)\<lparr>emails := filter (\<lambda>email. email \<noteq> e) (emails snap)\<rparr>"
  by (simp add: removeEmail_resume_def removeEmail_try_def ui_try_catch_toast Let_def)

lemma runCode_start_eq:
  "runCode_start p w =
     (if truthy (editorRef p)
      then Some (send (ExecuteCode (language p) (the (editorRef p))) (setIsLoading True w))
      else None)"
  by (simp add: runCode_start_def truthy_def split: option.splits)

lemma saveCode_start_eq:
  "saveCode_start p w =
     (if truthy (editorRef p)
      then Some (send (PUT_codes_save (id_prop p) (the (editorRef p))) (setIsLoading True w))
      else None)"
  by (simp add: saveCode_start_def truthy_def split: option.splits)

lemma ui_runCode_Throws:
  "ui (runCode p (Throws m) w) =
     (if truthy (editorRef p) then (ui w)\<lparr>isLoading := False\<rparr> else ui w)"
  by (simp add: runCode_def runCode_start_eq ui_runCode_resume_Throws)

lemma ui_runCode_Returns:
  "ui (runCode p (Returns res) w) =
     (if truthy (editorRef p)
      then (ui w)\<lparr>output := Some (split newline (run_output res)),
                  isError := truthy (run_stderr res), isLoading := False\<rparr>
      else ui w)"
  by (simp add: runCode_def runCode_start_eq ui_runCode_resume_Returns)

lemma ui_saveCode:
  "ui (saveCode p r w) =
     (if truthy (editorRef p) then (ui w)\<lparr>isLoading := False\<rparr> else ui w)"
  by (simp add: saveCode_def saveCode_start_eq ui_saveCode_resume)

section \<open>The claims\<close>

text \<open>
  C1. Whenever an operation fails, the access list and the execution result are what
  they were before it: for \<open>loadAccessList\<close> (\<open>fetchEmails\<close>) on every outcome other than
  a successful load, for \<open>grantAccess\<close> (\<open>handleEmailSubmit\<close>), \<open>revokeAccess\<close>
  (\<open>removeEmail\<close>) and \<open>save\<close> (\<open>saveCode\<close>) on a rejected call or a non-success
  status, and for \<open>run\<close> (\<open>runCode\<close>) on a thrown call.
\<close>

theorem C1_failure_keeps_data:
  "(loaded rl = None \<longrightarrow> same_data w (fetchEmails p rl w))
   \<and> (fetch_failed rg \<longrightarrow> same_data w (handleEmailSubmit p rg w))
   \<and> (fetch_failed rr \<longrightarrow> same_data w (removeEmail p e rr w))
   \<and> same_data w (runCode p (Throws m) w)
   \<and> (fetch_failed rs \<longrightarrow> same_data w (saveCode p rs w))"
proof (intro conjI impI)
  assume "loaded rl = None"
  then have "ui (fetchEmails p rl w) = ui w"
    by (simp add: fetchEmails_def fetchEmails_start_def ui_fetchEmails_resume)
  then show "same_data w (fetchEmails p rl w)"
    by (simp add: same_data_def AccessList_def ExecutionResult_def)
next
  assume "fetch_failed rg"
  then have "ui (handleEmailSubmit p rg w) = ui w"
    by (simp add: handleEmailSubmit_def handleEmailSubmit_start_def
        ui_handleEmailSubmit_resume_failed)
  then show "same_data w (handleEmailSubmit p rg w)"
    by (simp add: same_data_def AccessList_def ExecutionResult_def)
next
  assume "fetch_failed rr"
  then have "ui (removeEmail p e rr w) = ui w"
    by (simp add: removeEmail_def removeEmail_start_def ui_removeEmail_resume_failed)
  then show "same_data w (removeEmail p e rr w)"
    by (simp add: same_data_def AccessList_def ExecutionResult_def)
next
  show "same_data w (runCode p (Throws m) w)"
    by (simp add: same_data_def AccessList_def ExecutionResult_def ui_runCode_Throws)
next
  show "same_data w (saveCode p rs w)"
    by (simp add: same_data_def AccessList_def ExecutionResult_def ui_saveCode)
qed

text \<open>
  One failing outcome of each kind, in a world that has an access list and a result to
  lose: a load whose body is \<open>null\<close>, a grant the server rejects, a revoke whose call
  rejects, a run that throws, a save the server rejects.
\<close>

theorem C1_failure_keeps_data_witness:
  "loaded (FetchResolves \<lparr>ok = True, json = JsonNull\<rparr>) = None
   \<and> same_data some_world
        (fetchEmails some_props (FetchResolves \<lparr>ok = True, json = JsonNull\<rparr>) some_world)
   \<and> fetch_failed (FetchResolves rejection)
   \<and> same_data some_world (handleEmailSubmit some_props (FetchResolves rejection) some_world)
   \<and> fetch_failed (FetchRejects :: error_data fetched)
   \<and> same_data some_world (removeEmail some_props ''a@x.com'' FetchRejects some_world)
   \<and> same_data some_world (runCode some_props (Throws (Some ''timeout'')) some_world)
   \<and> same_data some_world (saveCode some_props (FetchResolves rejection) some_world)"
  using C1_failure_keeps_data [where rl = "FetchResolves \<lparr>ok = True, json = JsonNull\<rparr>"
      and rg = "FetchResolves rejection" and rr = FetchRejects
      and rs = "FetchResolves rejection" and p = some_props and w = some_world
      and e = "''a@x.com''" and m = "Some ''timeout''"]
  by (simp add: loaded_def fetch_failed_def rejection_def)

text \<open>
  C2. When \<open>grantAccess\<close> of a non-empty e-mail gets a success response, the access list
  is the list from before with that e-mail added at the end, whether or not it was in
  the list already; the pending-email input is the empty string and the add-email
  modal is closed.
\<close>

theorem C2_grant_success:
  assumes "newEmail (ui w) = email" and "email \<noteq> []" and "ok response"
  shows "AccessList (handleEmailSubmit p (FetchResolves response) w) = AccessList w @ [email]
         \<and> newEmail (ui (handleEmailSubmit p (FetchResolves response) w)) = []
         \<and> isModalOpen (ui (handleEmailSubmit p (FetchResolves response) w)) = False"
  using assms
  by (simp add: handleEmailSubmit_def handleEmailSubmit_start_def AccessList_def
      ui_handleEmailSubmit_resume_ok)

text \<open>
  Granting access to \<open>a@x.com\<close>, which the list of \<open>some_world\<close> already holds: the address
  is appended a second time.
\<close>

theorem C2_grant_success_witness:
  "newEmail (ui (setNewEmail ''a@x.com'' some_world)) = ''a@x.com''
   \<and> ''a@x.com'' \<noteq> []
   \<and> ok (ok_response :: error_data response)
   \<and> AccessList (handleEmailSubmit some_props (FetchResolves ok_response)
        (setNewEmail ''a@x.com'' some_world)) = [''a@x.com'', ''b@x.com'', ''a@x.com'']
   \<and> newEmail (ui (handleEmailSubmit some_props (FetchResolves ok_response)
        (setNewEmail ''a@x.com'' some_world))) = []
   \<and> isModalOpen (ui (handleEmailSubmit some_props (FetchResolves ok_response)
        (setNewEmail ''a@x.com'' some_world))) = False"
  using C2_grant_success [where w = "setNewEmail ''a@x.com'' some_world"
      and email = "''a@x.com''" and response = ok_response and p = some_props]
  by (simp add: ok_response_def AccessList_def some_world_def)

text \<open>
  C3. When \<open>revokeAccess\<close> of an e-mail gets a success response, the access list is the
  list from before without the entries equal to that e-mail, all of them, the others
  in their order; from \<open>["a@x.com", "b@x.com"]\<close>, revoking \<open>a@x.com\<close> leaves \<open>["b@x.com"]\<close>.
\<close>

theorem C3_revoke_success:
  assumes "ok response"
  shows "AccessList (removeEmail p email (FetchResolves response) w)
           = removeAll email (AccessList w)
         \<and> (AccessList w = [''a@x.com'', ''b@x.com''] \<longrightarrow>
              AccessList (removeEmail p ''a@x.com'' (FetchResolves response) w)
                = [''b@x.com''])"
  using assms
  by (simp add: removeEmail_def removeEmail_start_def AccessList_def
      ui_removeEmail_resume_ok removeAll_filter_not_eq eq_commute)

theorem C3_revoke_success_witness:
  "ok (ok_response :: error_data response)
   \<and> AccessList some_world = [''a@x.com'', ''b@x.com'']
   \<and> AccessList (removeEmail some_props ''a@x.com'' (FetchResolves ok_response) some_world)
        = [''b@x.com'']"
  using C3_revoke_success [where response = "ok_response :: error_data response"
      and p = some_props and w = some_world and email = "''a@x.com''"]
  by (simp add: ok_response_def AccessList_def some_world_def)

text \<open>
  C4. When \<open>run\<close> of a non-empty source text resolves with \<open>output\<close> and \<open>stderr\<close>, the
  output lines are \<open>output\<close> split at its line feeds (joined again with line feeds they
  give \<open>output\<close> back, and no line holds a line feed), and the error mark is set exactly
  when \<open>stderr\<close> is a non-empty string.
\<close>

theorem C4_run_success:
  assumes "truthy (editorRef p)"
  shows "ExecutionResult (runCode p (Returns res) w)
           = (Some (split (CHR 0x0A) (run_output res)), truthy (run_stderr res))
         \<and> join (CHR 0x0A) (split (CHR 0x0A) (run_output res)) = run_output res
         \<and> (\<forall>l \<in> set (split (CHR 0x0A) (run_output res)). CHR 0x0A \<notin> set l)
         \<and> (isError (ui (runCode p (Returns res) w))
              \<longleftrightarrow> (\<exists>s. run_stderr res = Some s \<and> s \<noteq> []))"
proof (intro conjI)
  show "ExecutionResult (runCode p (Returns res) w)
          = (Some (split (CHR 0x0A) (run_output res)), truthy (run_stderr res))"
    using assms by (simp add: ExecutionResult_def ui_runCode_Returns newline_def)
  show "join (CHR 0x0A) (split (CHR 0x0A) (run_output res)) = run_output res"
    by (rule join_split)
  show "\<forall>l \<in> set (split (CHR 0x0A) (run_output res)). CHR 0x0A \<notin> set l"
    using split_no_sep by blast
  show "isError (ui (runCode p (Returns res) w))
          \<longleftrightarrow> (\<exists>s. run_stderr res = Some s \<and> s \<noteq> [])"
    using assms by (simp add: ui_runCode_Returns truthy_def split: option.splits)
qed

text \<open>
  The two runs of the specification: the output \<open>1\<close>, line feed, \<open>2\<close>, line feed, \<open>3\<close>
  with an empty \<open>stderr\<close> gives the three lines and no error mark; the output \<open>oops\<close>
  with \<open>stderr\<close> \<open>TypeError\<close> gives the error mark.
\<close>

theorem C4_run_success_witness:
  "truthy (editorRef some_props)
   \<and> ExecutionResult
        (runCode some_props
           (Returns \<lparr>run_output = [CHR ''1'', CHR 0x0A, CHR ''2'', CHR 0x0A, CHR ''3''],
                     run_stderr = Some []\<rparr>) some_world)
        = (Some [''1'', ''2'', ''3''], False)
   \<and> ExecutionResult
        (runCode some_props
           (Returns \<lparr>run_output = ''oops'', run_stderr = Some ''TypeError''\<rparr>) some_world)
        = (Some [''oops''], True)"
  using C4_run_success [where p = some_props and w = some_world
      and res = "\<lparr>run_output = [CHR ''1'', CHR 0x0A, CHR ''2'', CHR 0x0A, CHR ''3''],
                   run_stderr = Some []\<rparr>"]
    C4_run_success [where p = some_props and w = some_world
      and res = "\<lparr>run_output = ''oops'', run_stderr = Some ''TypeError''\<rparr>"]
  by (simp add: truthy_def some_props_def)

text \<open>
  C5. After \<open>run\<close> of a non-empty source text the loading flag is false, whether the call
  returned or threw; and when it threw, the execution result is the one from before.
\<close>

theorem C5_run_clears_loading:
  assumes "truthy (editorRef p)"
  shows "isLoading (ui (runCode p r w)) = False
         \<and> ExecutionResult (runCode p (Throws m) w) = ExecutionResult w"
  using assms
  by (cases r) (simp_all add: ui_runCode_Throws ui_runCode_Returns ExecutionResult_def)

theorem C5_run_clears_loading_witness:
  "truthy (editorRef some_props)
   \<and> isLoading (ui (runCode some_props (Throws None) (setIsLoading True some_world))) = False
   \<and> ExecutionResult (runCode some_props (Throws None) (setIsLoading True some_world))
        = (Some [''1''], False)"
  using C5_run_clears_loading [where p = some_props and r = "Throws None"
      and w = "setIsLoading True some_world" and m = None]
  by (simp add: truthy_def some_props_def ExecutionResult_def some_world_def)

text \<open>
  C6. After a successful load the access list is the sequence the server returned, as
  it is, and the empty sequence when the response has no \<open>Access\<close> field.
\<close>

theorem C6_load_success:
  assumes "loaded r = Some d"
  shows "(\<forall>xs. Access d = Some xs \<longrightarrow> AccessList (fetchEmails p r w) = xs)
         \<and> (Access d = None \<longrightarrow> AccessList (fetchEmails p r w) = [])"
  using assms
  by (simp add: fetchEmails_def fetchEmails_start_def ui_fetchEmails_resume AccessList_def)

text \<open>A server list out of order and with a repeated entry, and a response without the field.\<close>

theorem C6_load_success_witness:
  "loaded (FetchResolves
      \<lparr>ok = True, json = JsonData \<lparr>Access = Some [''b@x.com'', ''a@x.com'', ''b@x.com'']\<rparr>\<rparr>)
     = Some \<lparr>Access = Some [''b@x.com'', ''a@x.com'', ''b@x.com'']\<rparr>
   \<and> AccessList (fetchEmails some_props (FetchResolves
        \<lparr>ok = True, json = JsonData \<lparr>Access = Some [''b@x.com'', ''a@x.com'', ''b@x.com'']\<rparr>\<rparr>)
        some_world) = [''b@x.com'', ''a@x.com'', ''b@x.com'']
   \<and> loaded (FetchResolves \<lparr>ok = True, json = JsonData \<lparr>Access = None\<rparr>\<rparr>)
     = Some \<lparr>Access = None\<rparr>
   \<and> AccessList (fetchEmails some_props (FetchResolves
        \<lparr>ok = True, json = JsonData \<lparr>Access = None\<rparr>\<rparr>) some_world) = []"
  using C6_load_success [where p = some_props and w = some_world
      and d = "\<lparr>Access = Some [''b@x.com'', ''a@x.com'', ''b@x.com'']\<rparr>"
      and r = "FetchResolves
        \<lparr>ok = True, json = JsonData \<lparr>Access = Some [''b@x.com'', ''a@x.com'', ''b@x.com'']\<rparr>\<rparr>"]
    C6_load_success [where p = some_props and w = some_world
      and d = "\<lparr>Access = None\<rparr>"
      and r = "FetchResolves \<lparr>ok = True, json = JsonData \<lparr>Access = None\<rparr>\<rparr>"]
  by (simp add: loaded_def)

text \<open>
  C7. The claim: the loading flag of run and the loading flag of save are distinct, so
  that a run in flight neither sets nor clears the flag save observes, and the other
  way round. The component has one \<open>isLoading\<close> cell, which both handlers set and both
  buttons show. On a fresh component the Save Code button is not loading; once
  \<open>runCode\<close> has sent its call it is. And a save that starts and ends while that run is
  still in flight leaves the Run Code button not loading.
\<close>

theorem C7_separate_loading_flags_counterexample:
  "runCode_start some_props initial_world = Some running_world
   \<and> save_button_isLoading (ui initial_world) = False
   \<and> save_button_isLoading (ui running_world) = True
   \<and> run_button_isLoading (ui running_world) = True
   \<and> run_button_isLoading
        (ui (saveCode some_props (FetchResolves ok_response) running_world)) = False"
  by (simp add: runCode_start_def some_props_def running_world_def initial_world_def
      initial_ui_def save_button_isLoading_def run_button_isLoading_def ui_saveCode truthy_def)

text \<open>
  C7, amended. The Run Code button and the Save Code button show the same loading flag.
  A run that starts sets the flag the Save Code button shows, a save that starts sets
  the flag the Run Code button shows, and the end of either, on any outcome, clears
  the flag for both.
\<close>

theorem C7_one_loading_flag:
  "run_button_isLoading s = save_button_isLoading s
   \<and> (runCode_start p w = Some w' \<longrightarrow> save_button_isLoading (ui w'))
   \<and> (saveCode_start p w = Some w' \<longrightarrow> run_button_isLoading (ui w'))
   \<and> \<not> save_button_isLoading (ui (runCode_resume r w))
   \<and> \<not> run_button_isLoading (ui (saveCode_resume rs w))"
proof (intro conjI impI)
  show "run_button_isLoading s = save_button_isLoading s"
    by (simp add: run_button_isLoading_def save_button_isLoading_def)
next
  assume "runCode_start p w = Some w'"
  then show "save_button_isLoading (ui w')"
    by (auto simp: runCode_start_eq save_button_isLoading_def split: if_splits)
next
  assume "saveCode_start p w = Some w'"
  then show "run_button_isLoading (ui w')"
    by (auto simp: saveCode_start_eq run_button_isLoading_def split: if_splits)
next
  show "\<not> save_button_isLoading (ui (runCode_resume r w))"
    by (cases r)
      (simp_all add: save_button_isLoading_def ui_runCode_resume_Throws
        ui_runCode_resume_Returns)
next
  show "\<not> run_button_isLoading (ui (saveCode_resume rs w))"
    by (simp add: run_button_isLoading_def ui_saveCode_resume)
qed

theorem C7_one_loading_flag_witness:
  "runCode_start some_props initial_world = Some running_world
   \<and> save_button_isLoading (ui running_world)
   \<and> saveCode_start some_props initial_world
       = Some (send (PUT_codes_save ''42'' ''print(1)'') (setIsLoading True initial_world))
   \<and> run_button_isLoading
       (ui (send (PUT_codes_save ''42'' ''print(1)'') (setIsLoading True initial_world)))
   \<and> \<not> save_button_isLoading (ui (runCode_resume (Throws None) running_world))
   \<and> \<not> run_button_isLoading (ui (saveCode_resume FetchRejects running_world))"
  using C7_one_loading_flag [where p = some_props and w = initial_world
      and w' = running_world and r = "Throws None" and rs = FetchRejects]
    C7_one_loading_flag [where p = some_props and w = initial_world
      and w' = "send (PUT_codes_save ''42'' ''print(1)'') (setIsLoading True initial_world)"
      and r = "Throws None" and rs = FetchRejects]
  by (simp add: runCode_start_def saveCode_start_def some_props_def running_world_def
      ui_runCode_resume_Throws ui_saveCode_resume save_button_isLoading_def
      run_button_isLoading_def)

text \<open>
  C8. The claim: \<open>grantAccess\<close> is a no-op for an empty e-mail and also for a blank one.
  The guard of \<open>handleEmailSubmit\<close> is \<open>if (newEmail)\<close>, which only the empty string
  fails, and the e-mail field strips ASCII white space only. A user who types a
  no-break space into the field and submits has a blank pending e-mail; the handler
  sends the give request, and on a success response the no-break space goes on the
  access list and the modal closes.
\<close>

theorem C8_blank_email_counterexample:
  "blank [CHR 0xA0]
   \<and> newEmail (ui (typing_world [CHR 0xA0])) = [CHR 0xA0]
   \<and> requests (typing_world [CHR 0xA0]) = [GET_codes ''42'']
   \<and> handleEmailSubmit_start some_props (typing_world [CHR 0xA0])
       = Some (send (PUT_codes_give ''42'' [CHR 0xA0]) (typing_world [CHR 0xA0]))
   \<and> requests (handleEmailSubmit some_props (FetchResolves ok_response)
        (typing_world [CHR 0xA0])) = [GET_codes ''42'', PUT_codes_give ''42'' [CHR 0xA0]]
   \<and> AccessList (typing_world [CHR 0xA0]) = [''a@x.com'']
   \<and> AccessList (handleEmailSubmit some_props (FetchResolves ok_response)
        (typing_world [CHR 0xA0])) = [''a@x.com'', [CHR 0xA0]]
   \<and> isModalOpen (ui (typing_world [CHR 0xA0])) = True
   \<and> isModalOpen (ui (handleEmailSubmit some_props (FetchResolves ok_response)
        (typing_world [CHR 0xA0]))) = False"
  by (simp add: blank_def white_space_def typing_world_def newEmail_onChange_def
      enterNewEmail_onClick_def email_input_value_def strip_newlines_def
      strip_ascii_whitespace_def ascii_whitespace_def fetchEmails_def fetchEmails_start_def
      ui_fetchEmails_resume fetchEmails_resume_def requests_try_catch_toast
      fetchEmails_try_def loaded_def initial_world_def initial_ui_def
      handleEmailSubmit_def handleEmailSubmit_start_def handleEmailSubmit_resume_def
      handleEmailSubmit_try_def ui_try_catch_toast ok_response_def some_props_def
      AccessList_def Let_def)

text \<open>
  C8, amended. \<open>grantAccess\<close> is a no-op when the pending e-mail is the empty string: no
  network call is issued and nothing changes. That is also the case after text of
  ASCII white space only is typed into the e-mail field, since the field hands over
  the empty string for it. For every non-empty pending e-mail, one of white space
  outside ASCII included, exactly one give request for that e-mail is issued.
\<close>

theorem C8_empty_email_noop:
  "(newEmail (ui w) = [] \<longrightarrow>
      handleEmailSubmit_start p w = None \<and> handleEmailSubmit p r w = w)
   \<and> (list_all ascii_whitespace field_text \<longrightarrow>
      newEmail (ui (newEmail_onChange field_text w)) = []
      \<and> handleEmailSubmit_start p (newEmail_onChange field_text w) = None
      \<and> handleEmailSubmit p r (newEmail_onChange field_text w)
          = newEmail_onChange field_text w)
   \<and> (newEmail (ui w) \<noteq> [] \<longrightarrow>
      requests (handleEmailSubmit p r w)
        = requests w @ [PUT_codes_give (id_prop p) (newEmail (ui w))])"
proof (intro conjI impI)
  assume "newEmail (ui w) = []"
  then show "handleEmailSubmit_start p w = None"
    by (simp add: handleEmailSubmit_start_def)
  then show "handleEmailSubmit p r w = w"
    by (simp add: handleEmailSubmit_def)
next
  assume "list_all ascii_whitespace field_text"
  then show e: "newEmail (ui (newEmail_onChange field_text w)) = []"
    by (simp add: newEmail_onChange_def email_input_value_ascii_blank)
  then show s: "handleEmailSubmit_start p (newEmail_onChange field_text w) = None"
    by (simp add: handleEmailSubmit_start_def)
  then show "handleEmailSubmit p r (newEmail_onChange field_text w)
      = newEmail_onChange field_text w"
    by (simp add: handleEmailSubmit_def)
next
  assume "newEmail (ui w) \<noteq> []"
  then show "requests (handleEmailSubmit p r w)
      = requests w @ [PUT_codes_give (id_prop p) (newEmail (ui w))]"
    by (simp add: handleEmailSubmit_def handleEmailSubmit_start_def
        handleEmailSubmit_resume_def requests_try_catch_toast handleEmailSubmit_try_def
        Let_def split: fetched.splits body.splits)
qed

text \<open>
  Submitting with nothing typed, with a space and a tab typed, and with \<open>c@x.com\<close>
  typed.
\<close>

theorem C8_empty_email_noop_witness:
  "newEmail (ui (typing_world [])) = []
   \<and> handleEmailSubmit_start some_props (typing_world []) = None
   \<and> handleEmailSubmit some_props (FetchResolves ok_response) (typing_world [])
       = typing_world []
   \<and> list_all ascii_whitespace [CHR 0x20, CHR 0x09]
   \<and> typing_world [CHR 0x20, CHR 0x09] = typing_world []
   \<and> handleEmailSubmit some_props (FetchResolves ok_response)
        (typing_world [CHR 0x20, CHR 0x09]) = typing_world [CHR 0x20, CHR 0x09]
   \<and> newEmail (ui (typing_world ''c@x.com'')) = ''c@x.com''
   \<and> requests (handleEmailSubmit some_props (FetchResolves ok_response)
        (typing_world ''c@x.com'')) = [GET_codes ''42'', PUT_codes_give ''42'' ''c@x.com'']"
proof -
  let ?loaded = "enterNewEmail_onClick
     (fetchEmails some_props
        (FetchResolves \<lparr>ok = True, json = JsonData \<lparr>Access = Some [''a@x.com'']\<rparr>\<rparr>)
        initial_world)"
  have blank: "list_all ascii_whitespace [CHR 0x20, CHR 0x09]"
    by (simp add: ascii_whitespace_def)
  have v0: "email_input_value [] = []"
    and v1: "email_input_value [CHR 0x20, CHR 0x09] = []"
    and v2: "email_input_value ''c@x.com'' = ''c@x.com''"
    by (simp_all add: email_input_value_def strip_newlines_def strip_ascii_whitespace_def
        ascii_whitespace_def)
  have rq: "requests (typing_world ''c@x.com'') = [GET_codes ''42'']"
    by (simp add: typing_world_def newEmail_onChange_def enterNewEmail_onClick_def
        fetchEmails_def fetchEmails_start_def fetchEmails_resume_def
        requests_try_catch_toast fetchEmails_try_def initial_world_def some_props_def)
  show ?thesis
    using C8_empty_email_noop [where w = "typing_world []" and p = some_props
        and r = "FetchResolves ok_response" and field_text = "[CHR 0x20, CHR 0x09]"]
      C8_empty_email_noop [where w = ?loaded and p = some_props
        and r = "FetchResolves ok_response" and field_text = "[CHR 0x20, CHR 0x09]"]
      C8_empty_email_noop [where w = "typing_world ''c@x.com''" and p = some_props
        and r = "FetchResolves ok_response" and field_text = "[]"]
      blank rq
    by (simp add: typing_world_def newEmail_onChange_def v0 v1 v2 some_props_def)
qed

text \<open>
  C9. \<open>save\<close> with an empty or absent content issues no network call and changes
  nothing. A failing \<open>save\<close> of a non-empty content leaves the access list and the
  execution result as they were, and the loading flag false.
\<close>

theorem C9_save_isolated:
  "(\<not> truthy (editorRef p) \<longrightarrow> saveCode_start p w = None \<and> saveCode p r w = w)
   \<and> (truthy (editorRef p) \<longrightarrow> fetch_failed r \<longrightarrow>
        same_data w (saveCode p r w) \<and> isLoading (ui (saveCode p r w)) = False)"
  by (simp add: saveCode_def saveCode_start_eq same_data_def AccessList_def
      ExecutionResult_def ui_saveCode_resume)

theorem C9_save_isolated_witness:
  "\<not> truthy (editorRef (some_props\<lparr>editorRef := Some []\<rparr>))
   \<and> saveCode (some_props\<lparr>editorRef := Some []\<rparr>) FetchRejects some_world = some_world
   \<and> \<not> truthy (editorRef (some_props\<lparr>editorRef := None\<rparr>))
   \<and> saveCode (some_props\<lparr>editorRef := None\<rparr>) FetchRejects some_world = some_world
   \<and> truthy (editorRef some_props)
   \<and> fetch_failed (FetchResolves rejection)
   \<and> same_data some_world (saveCode some_props (FetchResolves rejection) some_world)
   \<and> isLoading (ui (saveCode some_props (FetchResolves rejection) some_world)) = False"
  using C9_save_isolated [where p = "some_props\<lparr>editorRef := Some []\<rparr>" and w = some_world
      and r = FetchRejects]
    C9_save_isolated [where p = "some_props\<lparr>editorRef := None\<rparr>" and w = some_world
      and r = FetchRejects]
    C9_save_isolated [where p = some_props and w = some_world
      and r = "FetchResolves rejection"]
  by (simp add: truthy_def some_props_def fetch_failed_def rejection_def)

text \<open>
  C10. When \<open>grantAccess\<close> of a non-empty e-mail fails, the add-email modal is as open as
  it was and the pending-email input still holds the e-mail.
\<close>

theorem C10_failed_grant_keeps_input:
  assumes "newEmail (ui w) = email" and "email \<noteq> []" and "fetch_failed r"
  shows "isModalOpen (ui (handleEmailSubmit p r w)) = isModalOpen (ui w)
         \<and> newEmail (ui (handleEmailSubmit p r w)) = email"
  using assms
  by (simp add: handleEmailSubmit_def handleEmailSubmit_start_def
      ui_handleEmailSubmit_resume_failed)

theorem C10_failed_grant_keeps_input_witness:
  "newEmail (ui some_world) = ''c@x.com''
   \<and> ''c@x.com'' \<noteq> []
   \<and> fetch_failed (FetchResolves rejection)
   \<and> isModalOpen (ui (handleEmailSubmit some_props (FetchResolves rejection) some_world))
   \<and> newEmail (ui (handleEmailSubmit some_props (FetchResolves rejection) some_world))
       = ''c@x.com''"
  using C10_failed_grant_keeps_input [where w = some_world and email = "''c@x.com''"
      and r = "FetchResolves rejection" and p = some_props]
  by (simp add: some_world_def fetch_failed_def rejection_def)

end
